theory Spec2Isabelle
  imports Complex_Main
begin

section \<open>Numeric values\<close>

text \<open>
  The notebooks compute with numpy's 64-bit floats. A value is a finite number, one of
  the two infinities, or NaN. Finite values are kept as exact reals: rounding, overflow
  and underflow of finite results are outside this model, and so is the size of a Python
  integer that is turned into a float. What numpy does at the
  special values is written out, because several properties of the solver depend on
  it: a division by zero does not raise but yields an infinity or NaN (with a warning),
  NaN propagates through arithmetic and through \<^verbatim>\<open>np.maximum\<close>, and every
  comparison with NaN is false.
\<close>

datatype npfloat = Fin real | PInf | NInf | NaN

datatype error = TypeError | ValueError | ZeroDivisionError | UnboundLocalError | LinAlgError

type_synonym vec = "npfloat list"

fun fneg :: "npfloat \<Rightarrow> npfloat" where
  "fneg (Fin a) = Fin (- a)"
| "fneg PInf = NInf"
| "fneg NInf = PInf"
| "fneg NaN = NaN"

fun fadd :: "npfloat \<Rightarrow> npfloat \<Rightarrow> npfloat" where
  "fadd NaN _ = NaN"
| "fadd _ NaN = NaN"
| "fadd (Fin a) (Fin b) = Fin (a + b)"
| "fadd PInf NInf = NaN"
| "fadd NInf PInf = NaN"
| "fadd PInf _ = PInf"
| "fadd _ PInf = PInf"
| "fadd NInf _ = NInf"
| "fadd _ NInf = NInf"

definition fsub :: "npfloat \<Rightarrow> npfloat \<Rightarrow> npfloat" where
  "fsub a b = fadd a (fneg b)"

fun fmul :: "npfloat \<Rightarrow> npfloat \<Rightarrow> npfloat" where
  "fmul NaN _ = NaN"
| "fmul _ NaN = NaN"
| "fmul (Fin a) (Fin b) = Fin (a * b)"
| "fmul PInf (Fin b) = (if b = 0 then NaN else if 0 < b then PInf else NInf)"
| "fmul NInf (Fin b) = (if b = 0 then NaN else if 0 < b then NInf else PInf)"
| "fmul (Fin a) PInf = (if a = 0 then NaN else if 0 < a then PInf else NInf)"
| "fmul (Fin a) NInf = (if a = 0 then NaN else if 0 < a then NInf else PInf)"
| "fmul PInf PInf = PInf"
| "fmul NInf NInf = PInf"
| "fmul PInf NInf = NInf"
| "fmul NInf PInf = NInf"

text \<open>
  Division. Every divisor of the source is a Euclidean norm, the Lipschitz constant (a
  spectral norm), the momentum parameter or the literal 2, so a zero divisor is the
  positive zero: a positive number divided by it is \<open>+inf\<close>, a negative one \<open>-inf\<close>,
  and \<open>0 / 0\<close> is NaN.
\<close>

fun fdiv :: "npfloat \<Rightarrow> npfloat \<Rightarrow> npfloat" where
  "fdiv NaN _ = NaN"
| "fdiv _ NaN = NaN"
| "fdiv (Fin a) (Fin b) =
     (if b \<noteq> 0 then Fin (a / b)
      else if a = 0 then NaN else if 0 < a then PInf else NInf)"
| "fdiv (Fin a) PInf = Fin 0"
| "fdiv (Fin a) NInf = Fin 0"
| "fdiv PInf (Fin b) = (if 0 \<le> b then PInf else NInf)"
| "fdiv NInf (Fin b) = (if 0 \<le> b then NInf else PInf)"
| "fdiv _ _ = NaN"

fun fsqrt :: "npfloat \<Rightarrow> npfloat" where
  "fsqrt (Fin a) = (if a < 0 then NaN else Fin (sqrt a))"
| "fsqrt PInf = PInf"
| "fsqrt NInf = NaN"
| "fsqrt NaN = NaN"

fun fle :: "npfloat \<Rightarrow> npfloat \<Rightarrow> bool" where
  "fle NaN _ = False"
| "fle _ NaN = False"
| "fle (Fin a) (Fin b) = (a \<le> b)"
| "fle NInf _ = True"
| "fle _ PInf = True"
| "fle _ _ = False"

fun flt :: "npfloat \<Rightarrow> npfloat \<Rightarrow> bool" where
  "flt NaN _ = False"
| "flt _ NaN = False"
| "flt (Fin a) (Fin b) = (a < b)"
| "flt PInf _ = False"
| "flt _ NInf = False"
| "flt _ _ = True"

definition fge :: "npfloat \<Rightarrow> npfloat \<Rightarrow> bool" where
  "fge a b = fle b a"

definition fgt :: "npfloat \<Rightarrow> npfloat \<Rightarrow> bool" where
  "fgt a b = flt b a"

text \<open>\<^verbatim>\<open>np.maximum\<close>: the larger of the two, and NaN as soon as one of them is NaN.\<close>

fun fmaximum :: "npfloat \<Rightarrow> npfloat \<Rightarrow> npfloat" where
  "fmaximum NaN _ = NaN"
| "fmaximum _ NaN = NaN"
| "fmaximum a b = (if fle a b then b else a)"

fun fsum :: "vec \<Rightarrow> npfloat" where
  "fsum [] = Fin 0"
| "fsum (a # as) = fadd a (fsum as)"

text \<open>\<^verbatim>\<open>np.linalg.norm\<close> of a one-dimensional array (and of each row with
  \<^verbatim>\<open>axis=1\<close>): the square root of the sum of the squares. This is the exact
  value; the float routine can differ from it by rounding, and where a square overflows
  or underflows (see \<open>linalg_norm_f64\<close> and \<open>prox12norm_by\<close> below).\<close>

definition linalg_norm :: "vec \<Rightarrow> npfloat" where
  "linalg_norm x = fsqrt (fsum (map (\<lambda>a. fmul a a) x))"

definition zeros :: "nat \<Rightarrow> vec" where
  "zeros n = replicate n (Fin 0)"

definition is_fin :: "npfloat \<Rightarrow> bool" where
  "is_fin a = (case a of Fin _ \<Rightarrow> True | _ \<Rightarrow> False)"

text \<open>
  An arithmetic operator between two one-dimensional arrays: numpy applies it
  elementwise when the lengths agree, stretches an array of length one over the other
  one, and raises \<^verbatim>\<open>ValueError\<close> otherwise.
\<close>

definition elementwise :: "(npfloat \<Rightarrow> npfloat \<Rightarrow> npfloat) \<Rightarrow> vec \<Rightarrow> vec \<Rightarrow> error + vec" where
  "elementwise f u v =
     (if length u = length v then Inr (map2 f u v)
      else if length u = 1 then Inr (map (f (hd u)) v)
      else if length v = 1 then Inr (map (\<lambda>a. f a (hd v)) u)
      else Inl ValueError)"

text \<open>A scalar times an array.\<close>

definition scale :: "npfloat \<Rightarrow> vec \<Rightarrow> vec" where
  "scale c v = map (fmul c) v"

fun ebind :: "error + 'a \<Rightarrow> ('a \<Rightarrow> error + 'b) \<Rightarrow> error + 'b" where
  "ebind (Inl e) f = Inl e"
| "ebind (Inr a) f = f a"

section \<open>The group proximal operator\<close>

text \<open>
  \<^verbatim>\<open>x.reshape(-1, d)\<close> cuts the array into consecutive rows of \<open>d\<close> entries. It
  raises \<^verbatim>\<open>ValueError\<close> when \<open>d\<close> is zero or does not divide the length.
\<close>

definition reshape :: "nat \<Rightarrow> vec \<Rightarrow> error + vec list" where
  "reshape d x =
     (if d = 0 \<or> length x mod d \<noteq> 0 then Inl ValueError
      else Inr (map (\<lambda>i. take d (drop (i * d) x)) [0..<length x div d]))"

text \<open>
  \<^verbatim>\<open>
  def prox12norm(x, gamma, d=2):
      x = x.reshape(-1, d)
      norm = np.linalg.norm(x, axis=1, keepdims=True)
      factor = np.maximum(1 - gamma / norm, 0)
      x = factor * x
      return x.reshape(-1)
  \<close>
\<close>

definition prox12norm :: "vec \<Rightarrow> npfloat \<Rightarrow> nat \<Rightarrow> error + vec" where
  "prox12norm x gamma d =
     (case reshape d x of
        Inl e \<Rightarrow> Inl e
      | Inr xs \<Rightarrow>
          (let norm = map linalg_norm xs;
               factor = map (\<lambda>n. fmaximum (fsub (Fin 1) (fdiv gamma n)) (Fin 0)) norm;
               xs' = map2 (\<lambda>f g. scale f g) factor xs
           in Inr (concat xs')))"

text \<open>
  The norm of \<^verbatim>\<open>prox12norm\<close> is computed by numpy, along the axis of the
  groups, as \<^verbatim>\<open>sqrt(add.reduce((x.conj() * x).real))\<close> in 64-bit floats. That
  value is not always the Euclidean norm: it is rounded, and the square of an entry can
  leave the range of the floats. \<open>prox12norm_by\<close> is the operator with the routine
  that computes the norm as a parameter; with the exact norm it is \<open>prox12norm\<close>.
\<close>

definition prox12norm_by :: "(vec \<Rightarrow> npfloat) \<Rightarrow> vec \<Rightarrow> npfloat \<Rightarrow> nat \<Rightarrow> error + vec" where
  "prox12norm_by vnorm x gamma d =
     (case reshape d x of
        Inl e \<Rightarrow> Inl e
      | Inr xs \<Rightarrow>
          (let norm = map vnorm xs;
               factor = map (\<lambda>n. fmaximum (fsub (Fin 1) (fdiv gamma n)) (Fin 0)) norm;
               xs' = map2 (\<lambda>f g. scale f g) factor xs
           in Inr (concat xs')))"

text \<open>
  The overflow of the routine, written out: a square of \<open>2 ^ 1024\<close> or more is beyond
  the largest 64-bit float and becomes \<open>+inf\<close>, and so does the norm. (Rounding and
  underflow stay outside, as everywhere in this model.)
\<close>

definition square_f64 :: "npfloat \<Rightarrow> npfloat" where
  "square_f64 a =
     (case a of
        Fin v \<Rightarrow> if 2 ^ 1024 \<le> v * v then PInf else Fin (v * v)
      | NaN \<Rightarrow> NaN
      | _ \<Rightarrow> PInf)"

definition linalg_norm_f64 :: "vec \<Rightarrow> npfloat" where
  "linalg_norm_f64 x = fsqrt (fsum (map square_f64 x))"

section \<open>Accelerated proximal gradient descent\<close>

text \<open>
  The iteration cap is handed to \<^verbatim>\<open>range\<close>, which accepts a Python integer
  and raises \<^verbatim>\<open>TypeError\<close> on a float. The declared default of \<^verbatim>\<open>apgd\<close>
  is the float literal \<^verbatim>\<open>1e5\<close>.
\<close>

datatype pynum = PyInt int | PyFloat npfloat

definition range_py :: "pynum \<Rightarrow> error + int list" where
  "range_py n =
     (case n of
        PyInt k \<Rightarrow> Inr (map int [0..<nat k])
      | PyFloat _ \<Rightarrow> Inl TypeError)"

definition default_maxit :: pynum where
  "default_maxit = PyFloat (Fin 100000)"

text \<open>
  The loop of \<^verbatim>\<open>apgd\<close>. The state is the current iterate \<open>x\<close>, the
  extrapolated point \<open>z\<close> and the momentum \<open>t\<close>.
  \<^verbatim>\<open>
  for i in range(maxit):
      grad = gradf(z)
      x_next = proxf(z-step_size*grad, gamma*step_size)
      t_new = (1 + np.sqrt(1 + 4 * t ** 2)) / 2
      z_next = x_next + ((t - 1) / t_new) * (x_next - x)
      if np.linalg.norm(x_next-x) <= tol:
          return x_next,i
      t = t_new
      x = x_next
      z = z_next
  return x, maxit+1
  \<close>
  \<open>apgd_body\<close> is the body up to the test: it yields \<open>x_next\<close>, \<open>z_next\<close>,
  \<open>t_new\<close> and the norm the test reads, or the exception one of its calls raises.
\<close>

definition apgd_body ::
  "(vec \<Rightarrow> error + vec) \<Rightarrow> (vec \<Rightarrow> npfloat \<Rightarrow> error + vec) \<Rightarrow> npfloat \<Rightarrow> npfloat \<Rightarrow>
   vec \<Rightarrow> vec \<Rightarrow> npfloat \<Rightarrow> error + (vec \<times> vec \<times> npfloat \<times> npfloat)" where
  "apgd_body gradf proxf gamma step_size x z t =
     ebind (gradf z) (\<lambda>grad.
     ebind (elementwise fsub z (scale step_size grad)) (\<lambda>arg.
     ebind (proxf arg (fmul gamma step_size)) (\<lambda>x_next.
       let t_new = fdiv (fadd (Fin 1) (fsqrt (fadd (Fin 1) (fmul (Fin 4) (fmul t t))))) (Fin 2)
       in
     ebind (elementwise fsub x_next x) (\<lambda>diff.
     ebind (elementwise fadd x_next (scale (fdiv (fsub t (Fin 1)) t_new) diff)) (\<lambda>z_next.
       Inr (x_next, z_next, t_new, linalg_norm diff))))))"

text \<open>One pass for every index of the range, in order; \<open>n\<close> is the integer the range
  was built from.\<close>

fun apgd_loop ::
  "(vec \<Rightarrow> error + vec) \<Rightarrow> (vec \<Rightarrow> npfloat \<Rightarrow> error + vec) \<Rightarrow> npfloat \<Rightarrow> npfloat \<Rightarrow>
   npfloat \<Rightarrow> int \<Rightarrow> int list \<Rightarrow> vec \<Rightarrow> vec \<Rightarrow> npfloat \<Rightarrow> error + (vec \<times> int)" where
  "apgd_loop gradf proxf gamma step_size tol n [] x z t = Inr (x, n + 1)"
| "apgd_loop gradf proxf gamma step_size tol n (i # is) x z t =
     (case apgd_body gradf proxf gamma step_size x z t of
        Inl e \<Rightarrow> Inl e
      | Inr (x_next, z_next, t_new, nrm) \<Rightarrow>
          if fle nrm tol then Inr (x_next, i)
          else apgd_loop gradf proxf gamma step_size tol n is x_next z_next t_new)"

text \<open>
  \<^verbatim>\<open>
  def apgd(gradf, proxf, gamma, L, x, tol=1e-6, maxit=1e5):
      z = x.copy()
      t = 1
      step_size = 1 / L
      for i in range(maxit): ...
  \<close>
  \<open>L\<close> is the numpy float both callers compute with \<^verbatim>\<open>np.linalg.norm\<close>, so
  \<^verbatim>\<open>1 / L\<close> is numpy's division. Once \<^verbatim>\<open>range\<close> has accepted
  \<open>maxit\<close> it is an integer \<open>n\<close>, and the count returned after the loop is
  \<open>n + 1\<close>.
\<close>

definition apgd ::
  "(vec \<Rightarrow> error + vec) \<Rightarrow> (vec \<Rightarrow> npfloat \<Rightarrow> error + vec) \<Rightarrow> npfloat \<Rightarrow> npfloat \<Rightarrow>
   vec \<Rightarrow> npfloat \<Rightarrow> pynum \<Rightarrow> error + (vec \<times> int)" where
  "apgd gradf proxf gamma L x tol maxit =
     (let z = x;
          t = Fin 1;
          step_size = fdiv (Fin 1) L
      in case range_py maxit of
           Inl e \<Rightarrow> Inl e
         | Inr is \<Rightarrow>
             (case maxit of
                PyInt n \<Rightarrow> apgd_loop gradf proxf gamma step_size tol n is x z t
              | PyFloat _ \<Rightarrow> Inl TypeError))"

section \<open>Matrices and the least-squares gradient\<close>

text \<open>
  A two-dimensional array: its rows, and the number of columns (which the rows do not
  determine when there are none). Every row of an array has \<open>ncols\<close> entries.
\<close>

record matrix =
  ncols :: nat
  rows :: "vec list"

definition nrows :: "matrix \<Rightarrow> nat" where
  "nrows A = length (rows A)"

definition dot :: "vec \<Rightarrow> vec \<Rightarrow> npfloat" where
  "dot u v = fsum (map2 fmul u v)"

definition transpose_m :: "matrix \<Rightarrow> matrix" where
  "transpose_m A =
     \<lparr>ncols = nrows A, rows = map (\<lambda>j. map (\<lambda>r. r ! j) (rows A)) [0..<ncols A]\<rparr>"

text \<open>\<^verbatim>\<open>A @ x\<close> for a matrix and a one-dimensional array: the lengths must agree.\<close>

definition matvec :: "matrix \<Rightarrow> vec \<Rightarrow> error + vec" where
  "matvec A x =
     (if length x = ncols A then Inr (map (\<lambda>r. dot r x) (rows A)) else Inl ValueError)"

definition matmul :: "matrix \<Rightarrow> matrix \<Rightarrow> error + matrix" where
  "matmul A B =
     (if ncols A = nrows B
      then Inr \<lparr>ncols = ncols B,
                rows = map (\<lambda>r. map (\<lambda>c. dot r c) (rows (transpose_m B))) (rows A)\<rparr>
      else Inl ValueError)"

text \<open>
  \<^verbatim>\<open>
  def grad_least_squares(A, x, y):
      return A.T @ (A @ x - y)
  \<close>
\<close>

definition grad_least_squares :: "matrix \<Rightarrow> vec \<Rightarrow> vec \<Rightarrow> error + vec" where
  "grad_least_squares A x y =
     ebind (matvec A x) (\<lambda>Ax.
     ebind (elementwise fsub Ax y) (\<lambda>r.
       matvec (transpose_m A) r))"

text \<open>\<^verbatim>\<open>np.linalg.norm(A @ x - y)\<close>\<close>

definition residual :: "matrix \<Rightarrow> vec \<Rightarrow> vec \<Rightarrow> error + npfloat" where
  "residual A x y =
     ebind (matvec A x) (\<lambda>Ax.
     ebind (elementwise fsub Ax y) (\<lambda>r.
       Inr (linalg_norm r)))"

text \<open>
  The Lipschitz constant is \<^verbatim>\<open>np.linalg.norm(A.T @ A, ord=2)\<close>, the largest
  singular value, which numpy obtains from LAPACK. That routine is not part of the
  repository; the solvers below take it as the parameter \<open>norm_ord2\<close>.
\<close>

definition lipschitz :: "(matrix \<Rightarrow> error + npfloat) \<Rightarrow> matrix \<Rightarrow> error + npfloat" where
  "lipschitz norm_ord2 A = ebind (matmul (transpose_m A) A) norm_ord2"

section \<open>The constrained solver\<close>

text \<open>
  Every trial of \<^verbatim>\<open>lscgnm\<close> is the same call, at a different weight:
  \<^verbatim>\<open>
  apgd(lambda x: grad_least_squares(A, x, y), lambda x, t: prox12norm(x, t, d),
       gamma, L, gnrls_x0, gnrls_tol, gnrls_maxit)
  \<close>
\<close>

definition trial ::
  "matrix \<Rightarrow> vec \<Rightarrow> nat \<Rightarrow> npfloat \<Rightarrow> vec \<Rightarrow> npfloat \<Rightarrow> pynum \<Rightarrow> npfloat \<Rightarrow> error + (vec \<times> int)" where
  "trial A y d L gnrls_x0 gnrls_tol gnrls_maxit gamma =
     apgd (\<lambda>x. grad_least_squares A x y) (\<lambda>x t. prox12norm x t d)
       gamma L gnrls_x0 gnrls_tol gnrls_maxit"

text \<open>A trial followed by its residual, as the baseline and the bracketing loop take it:
  \<^verbatim>\<open>
  x, _ = apgd(..., gamma, ...)
  norm = np.linalg.norm(A @ x - y)
  \<close>
\<close>

definition trial_residual ::
  "matrix \<Rightarrow> vec \<Rightarrow> nat \<Rightarrow> npfloat \<Rightarrow> vec \<Rightarrow> npfloat \<Rightarrow> pynum \<Rightarrow> npfloat \<Rightarrow> error + npfloat" where
  "trial_residual A y d L gnrls_x0 gnrls_tol gnrls_maxit gamma =
     ebind (trial A y d L gnrls_x0 gnrls_tol gnrls_maxit gamma) (\<lambda>(x, _). residual A x y)"

text \<open>
  The bracketing loop. It has no bound of its own, so the model may not return: the
  value \<open>None\<close> stands for a loop that runs forever. \<open>gamma_u\<close> is a Python
  integer, which doubles without overflow.
  \<^verbatim>\<open>
  gamma_u = 1
  while True:
      x, _ = apgd(..., gamma_u, ...)
      norm = np.linalg.norm(A @ x - y)
      if norm > sigma:
          gamma_opt = gamma_u
          break
      gamma_u = 2 * gamma_u
  \<close>
\<close>

partial_function (option) doubling ::
  "matrix \<Rightarrow> vec \<Rightarrow> npfloat \<Rightarrow> nat \<Rightarrow> npfloat \<Rightarrow> vec \<Rightarrow> npfloat \<Rightarrow> pynum \<Rightarrow> npfloat \<Rightarrow>
   (error + npfloat) option" where
  "doubling A y sigma d L gnrls_x0 gnrls_tol gnrls_maxit gamma_u =
     (case trial_residual A y d L gnrls_x0 gnrls_tol gnrls_maxit gamma_u of
        Inl e \<Rightarrow> Some (Inl e)
      | Inr nrm \<Rightarrow>
          if fgt nrm sigma then Some (Inr gamma_u)
          else doubling A y sigma d L gnrls_x0 gnrls_tol gnrls_maxit (fmul (Fin 2) gamma_u))"

text \<open>
  The bisection loop. \<open>x_opt\<close> is \<open>None\<close> as long as the variable has not been
  assigned; the loop hands back the final bracket and \<open>x_opt\<close>.
  \<^verbatim>\<open>
  gamma_l = 0
  while gamma_u - gamma_l > tol:
      gamma_mid = (gamma_l + gamma_u) / 2
      x_opt, _ = apgd(..., gamma_mid, ...)
      error = np.linalg.norm(A @ x_opt - y)
      if error < sigma:
          gamma_l = gamma_mid
      else:
          gamma_u = gamma_mid
  \<close>
  (The counter \<^verbatim>\<open>num_iterations\<close> of the source is never read and is left out.)
\<close>

partial_function (option) bisection ::
  "matrix \<Rightarrow> vec \<Rightarrow> npfloat \<Rightarrow> nat \<Rightarrow> npfloat \<Rightarrow> npfloat \<Rightarrow> vec \<Rightarrow> npfloat \<Rightarrow> pynum \<Rightarrow>
   npfloat \<Rightarrow> npfloat \<Rightarrow> vec option \<Rightarrow> (error + (npfloat \<times> npfloat \<times> vec option)) option" where
  "bisection A y sigma d tol L gnrls_x0 gnrls_tol gnrls_maxit gamma_l gamma_u x_opt =
     (if fgt (fsub gamma_u gamma_l) tol then
        (let gamma_mid = fdiv (fadd gamma_l gamma_u) (Fin 2) in
         case trial A y d L gnrls_x0 gnrls_tol gnrls_maxit gamma_mid of
           Inl e \<Rightarrow> Some (Inl e)
         | Inr (x, _) \<Rightarrow>
             (case residual A x y of
                Inl e \<Rightarrow> Some (Inl e)
              | Inr err \<Rightarrow>
                  if flt err sigma
                  then bisection A y sigma d tol L gnrls_x0 gnrls_tol gnrls_maxit
                         gamma_mid gamma_u (Some x)
                  else bisection A y sigma d tol L gnrls_x0 gnrls_tol gnrls_maxit
                         gamma_l gamma_mid (Some x)))
      else Some (Inr (gamma_l, gamma_u, x_opt)))"

text \<open>
  \<^verbatim>\<open>
  def lscgnm(A, y, sigma, d, tol, gnrls_x0, gnrls_tol, gnrls_maxit):
      L = np.linalg.norm(A.T @ A, ord=2)
      gamma0 = 1e-6
      x, _ = apgd(..., gamma0, ...)
      sigma0 = np.linalg.norm(A @ x - y)
      sigma_max = np.linalg.norm(y)
      if sigma >= sigma0:
          if sigma >= sigma_max:
              x = np.zeros(A.shape[1])
              gamma_opt = np.Infinity
              return x, gamma_opt
          else:
              (bracketing loop, bisection loop)
              gamma_star = (gamma_l + gamma_u) / 2
              return x_opt, gamma_star
      else:
          gamma_opt = -1
          return None, gamma_opt
  \<close>
  The result is \<open>None\<close> when the call does not return, \<open>Some (Inl e)\<close> when it raises
  and \<open>Some (Inr (x, gamma))\<close> when it returns; the returned \<open>x\<close> is Python's
  \<^verbatim>\<open>None\<close> or an array. Reading \<^verbatim>\<open>x_opt\<close> before it was assigned raises
  \<^verbatim>\<open>UnboundLocalError\<close>, a subclass of \<^verbatim>\<open>NameError\<close>.
\<close>

definition gamma0 :: npfloat where
  "gamma0 = Fin (1 / 1000000)"

definition baseline ::
  "(matrix \<Rightarrow> error + npfloat) \<Rightarrow> matrix \<Rightarrow> vec \<Rightarrow> nat \<Rightarrow> vec \<Rightarrow> npfloat \<Rightarrow> pynum \<Rightarrow>
   error + (npfloat \<times> npfloat)" where
  "baseline norm_ord2 A y d gnrls_x0 gnrls_tol gnrls_maxit =
     ebind (lipschitz norm_ord2 A) (\<lambda>L.
     ebind (trial_residual A y d L gnrls_x0 gnrls_tol gnrls_maxit gamma0) (\<lambda>sigma0.
       Inr (L, sigma0)))"

definition lscgnm ::
  "(matrix \<Rightarrow> error + npfloat) \<Rightarrow> matrix \<Rightarrow> vec \<Rightarrow> npfloat \<Rightarrow> nat \<Rightarrow> npfloat \<Rightarrow> vec \<Rightarrow> npfloat \<Rightarrow>
   pynum \<Rightarrow> (error + (vec option \<times> npfloat)) option" where
  "lscgnm norm_ord2 A y sigma d tol gnrls_x0 gnrls_tol gnrls_maxit =
     (case baseline norm_ord2 A y d gnrls_x0 gnrls_tol gnrls_maxit of
        Inl e \<Rightarrow> Some (Inl e)
      | Inr (L, sigma0) \<Rightarrow>
          (let sigma_max = linalg_norm y in
           if fge sigma sigma0 then
             if fge sigma sigma_max then Some (Inr (Some (zeros (ncols A)), PInf))
             else
               (case doubling A y sigma d L gnrls_x0 gnrls_tol gnrls_maxit (Fin 1) of
                  None \<Rightarrow> None
                | Some (Inl e) \<Rightarrow> Some (Inl e)
                | Some (Inr gamma_u) \<Rightarrow>
                    (case bisection A y sigma d tol L gnrls_x0 gnrls_tol gnrls_maxit
                            (Fin 0) gamma_u None of
                       None \<Rightarrow> None
                     | Some (Inl e) \<Rightarrow> Some (Inl e)
                     | Some (Inr (gamma_l, gamma_u', x_opt)) \<Rightarrow>
                         (let gamma_star = fdiv (fadd gamma_l gamma_u') (Fin 2) in
                          case x_opt of
                            None \<Rightarrow> Some (Inl UnboundLocalError)
                          | Some x \<Rightarrow> Some (Inr (Some x, gamma_star)))))
           else Some (Inr (None, Fin (- 1)))))"

section \<open>The block driver\<close>

text \<open>
  \<^verbatim>\<open>
  def get_piano_keys():
      keys = [27.5 * (2 ** (i / 12)) for i in range(88)]
      return keys
  \<close>
\<close>

definition get_piano_keys :: "real list" where
  "get_piano_keys = map (\<lambda>i. 27.5 * 2 powr (real i / 12)) [0..<88]"

text \<open>
  \<^verbatim>\<open>
  def get_A(frequencies, f_s, l):
      A = np.zeros((l, 2*len(frequencies)))
      for i, f in enumerate(frequencies):
          for j in range(l):
              A[j, 2 * i] = np.cos(2 * np.pi * f * j / f_s)
              A[j, 2 * i + 1] = np.sin(2 * np.pi * f * j / f_s)
      return A
  \<close>
  The two loops assign every entry of the array once; the model builds the filled array
  row by row. The quotient is a division of Python numbers, which raises
  \<^verbatim>\<open>ZeroDivisionError\<close> at the first entry when \<open>f_s\<close> is zero.
\<close>

definition get_A :: "real list \<Rightarrow> real \<Rightarrow> nat \<Rightarrow> error + matrix" where
  "get_A frequencies f_s l =
     (if f_s = 0 \<and> l \<noteq> 0 \<and> frequencies \<noteq> [] then Inl ZeroDivisionError
      else Inr \<lparr>ncols = 2 * length frequencies,
                rows = map (\<lambda>j. concat (map (\<lambda>f.
                         [Fin (cos (2 * pi * f * real j / f_s)),
                          Fin (sin (2 * pi * f * real j / f_s))]) frequencies)) [0..<l]\<rparr>)"

text \<open>
  \<^verbatim>\<open>
  def apgd_driver(data, f_s, l, d = 2, gamma=4.0, tol=1e-6, maxit=10**5):
      f = get_piano_keys()
      A = get_A(f, f_s, l)
      L = np.linalg.norm(A.T @ A, ord=2)
      result = []
      x0 = np.zeros(A.shape[1])
      for i, y in enumerate(data[:-1]):
          x, iters = apgd(lambda x: grad_least_squares(A,x,y),
                          lambda x, t: prox12norm(x, t, d), gamma, L, x0, tol, maxit)
          result.append(x)
      return result
  \<close>
  \<open>driver_loop\<close> is the \<^verbatim>\<open>for\<close> loop over the blocks it is handed, with the list
  \<open>result\<close> built so far.
\<close>

fun driver_loop ::
  "matrix \<Rightarrow> npfloat \<Rightarrow> nat \<Rightarrow> npfloat \<Rightarrow> npfloat \<Rightarrow> pynum \<Rightarrow> vec \<Rightarrow> vec list \<Rightarrow> vec list \<Rightarrow>
   error + vec list" where
  "driver_loop A L d gamma tol maxit x0 [] result = Inr result"
| "driver_loop A L d gamma tol maxit x0 (y # ys) result =
     (case apgd (\<lambda>x. grad_least_squares A x y) (\<lambda>x t. prox12norm x t d)
             gamma L x0 tol maxit of
        Inl e \<Rightarrow> Inl e
      | Inr (x, iters) \<Rightarrow> driver_loop A L d gamma tol maxit x0 ys (result @ [x]))"

definition apgd_driver ::
  "(matrix \<Rightarrow> error + npfloat) \<Rightarrow> vec list \<Rightarrow> real \<Rightarrow> nat \<Rightarrow> nat \<Rightarrow> npfloat \<Rightarrow> npfloat \<Rightarrow> pynum \<Rightarrow>
   error + vec list" where
  "apgd_driver norm_ord2 data f_s l d gamma tol maxit =
     ebind (get_A get_piano_keys f_s l) (\<lambda>A.
     ebind (lipschitz norm_ord2 A) (\<lambda>L.
       let x0 = zeros (ncols A)
       in driver_loop A L d gamma tol maxit x0 (butlast data) []))"

section \<open>Notions used to state the properties\<close>

text \<open>
  \<open>unconverged_passes k\<close> runs the loop body \<open>k\<close> times from a state and answers the
  state reached, provided that no pass raised and no pass met the convergence test;
  otherwise it answers \<open>None\<close>.
\<close>

fun unconverged_passes ::
  "(vec \<Rightarrow> error + vec) \<Rightarrow> (vec \<Rightarrow> npfloat \<Rightarrow> error + vec) \<Rightarrow> npfloat \<Rightarrow> npfloat \<Rightarrow>
   npfloat \<Rightarrow> nat \<Rightarrow> vec \<Rightarrow> vec \<Rightarrow> npfloat \<Rightarrow> (vec \<times> vec \<times> npfloat) option" where
  "unconverged_passes gradf proxf gamma step_size tol 0 x z t = Some (x, z, t)"
| "unconverged_passes gradf proxf gamma step_size tol (Suc k) x z t =
     (case apgd_body gradf proxf gamma step_size x z t of
        Inl e \<Rightarrow> None
      | Inr (x_next, z_next, t_new, nrm) \<Rightarrow>
          if fle nrm tol then None
          else unconverged_passes gradf proxf gamma step_size tol k x_next z_next t_new)"

text \<open>
  \<open>not_above\<close> holds of a weight when the trial at that weight returns and its
  residual is not greater than \<open>sigma\<close>: the case in which the bracketing loop goes
  on to the doubled weight.
\<close>

definition not_above ::
  "matrix \<Rightarrow> vec \<Rightarrow> npfloat \<Rightarrow> nat \<Rightarrow> npfloat \<Rightarrow> vec \<Rightarrow> npfloat \<Rightarrow> pynum \<Rightarrow> npfloat \<Rightarrow> bool" where
  "not_above A y sigma d L x0 gtol gmaxit g =
     (case trial_residual A y d L x0 gtol gmaxit g of
        Inl e \<Rightarrow> False
      | Inr nrm \<Rightarrow> \<not> fgt nrm sigma)"

text \<open>Data of the examples: the 2 by 2 identity as dictionary. The spectral norm of its
  Gram matrix is 1, and \<open>norm_answer c\<close> stands for the library routine on an input
  whose spectral norm is \<open>c\<close>.\<close>

definition identity2 :: matrix where
  "identity2 = \<lparr>ncols = 2, rows = [[Fin 1, Fin 0], [Fin 0, Fin 1]]\<rparr>"

definition norm_answer :: "npfloat \<Rightarrow> matrix \<Rightarrow> error + npfloat" where
  "norm_answer c M = Inr c"

text \<open>A float whose square overflows.\<close>

definition huge :: real where
  "huge = 2 ^ 700"

section \<open>Facts about the model\<close>

lemma flt_not_fge: "flt a b \<Longrightarrow> \<not> fge a b"
  by (cases a; cases b) (auto simp: fge_def)

lemma apgd_empty_range: "n \<le> 0 \<Longrightarrow> apgd gradf proxf gamma L x tol (PyInt n) = Inr (x, n + 1)"
  by (simp add: apgd_def range_py_def)

lemma apgd_float_cap: "apgd gradf proxf gamma L x tol (PyFloat m) = Inl TypeError"
  by (simp add: apgd_def range_py_def)

lemma lipschitz_answer: "lipschitz (norm_answer c) A = Inr c"
  by (simp add: lipschitz_def matmul_def transpose_m_def nrows_def norm_answer_def)

lemma apgd_loop_unconverged:
  "unconverged_passes gradf proxf gamma step_size tol (length is) x z t = Some (x', z', t') \<Longrightarrow>
   apgd_loop gradf proxf gamma step_size tol n is x z t = Inr (x', n + 1)"
proof (induction "is" arbitrary: x z t)
  case Nil
  then show ?case by simp
next
  case (Cons i "is")
  then show ?case
    by (auto split: sum.splits if_splits)
qed

lemma fle_not_fgt_width: "fle gamma_u tol \<Longrightarrow> \<not> fgt (fsub gamma_u (Fin 0)) tol"
  by (cases gamma_u; cases tol) (auto simp: fgt_def fsub_def)

subsection \<open>The proximal operator\<close>

lemma scale_zero: "list_all is_fin x \<Longrightarrow> scale (Fin 0) x = zeros (length x)"
  by (induction x) (auto simp: scale_def zeros_def is_fin_def split: npfloat.splits)

lemma reshape_single: "0 < d \<Longrightarrow> length x = d \<Longrightarrow> reshape d x = Inr [x]"
  by (simp add: reshape_def)

lemma prox12norm_by_exact: "prox12norm_by linalg_norm x gamma d = prox12norm x gamma d"
  by (simp add: prox12norm_by_def prox12norm_def)

lemma prox12norm_by_one_group:
  "0 < d \<Longrightarrow> length x = d \<Longrightarrow>
   prox12norm_by vnorm x gamma d =
     Inr (scale (fmaximum (fsub (Fin 1) (fdiv gamma (vnorm x))) (Fin 0)) x)"
  by (simp add: prox12norm_by_def reshape_single)

lemma prox12norm_one_group:
  "0 < d \<Longrightarrow> length x = d \<Longrightarrow>
   prox12norm x gamma d =
     Inr (scale (fmaximum (fsub (Fin 1) (fdiv gamma (linalg_norm x))) (Fin 0)) x)"
  using prox12norm_by_one_group [of d x linalg_norm gamma]
  by (simp add: prox12norm_by_exact)

lemma factor_zero: "0 < r \<Longrightarrow> fge gamma (Fin r) \<Longrightarrow>
  fmaximum (fsub (Fin 1) (fdiv gamma (Fin r))) (Fin 0) = Fin 0"
  by (cases gamma) (auto simp: fge_def fsub_def)

lemma factor_shrink: "0 < r \<Longrightarrow> flt gamma (Fin r) \<Longrightarrow>
  fmaximum (fsub (Fin 1) (fdiv gamma (Fin r))) (Fin 0) = fsub (Fin 1) (fdiv gamma (Fin r))"
  by (cases gamma) (auto simp: fsub_def)

lemma take_chunks: "concat (map (\<lambda>i. take d (drop (i * d) x)) [0..<k]) = take (k * d) x"
proof (induction k)
  case 0
  then show ?case by simp
next
  case (Suc k)
  have "take (k * d + d) x = take (k * d) x @ take d (drop (k * d) x)"
    by (rule take_add)
  with Suc show ?case by (simp add: add.commute)
qed

lemma reshape_concat: "reshape d x = Inr xs \<Longrightarrow> concat xs = x"
proof -
  assume r: "reshape d x = Inr xs"
  then have d: "d \<noteq> 0" "length x mod d = 0"
    and xs: "xs = map (\<lambda>i. take d (drop (i * d) x)) [0..<length x div d]"
    by (auto simp: reshape_def split: if_splits)
  from d have "length x div d * d = length x"
    using div_mult_mod_eq [of "length x" d] by simp
  with xs show ?thesis by (simp add: take_chunks)
qed

lemma map2_map_same: "map2 f (map g xs) xs = map (\<lambda>a. f (g a) a) xs"
  by (induction xs) auto

lemma length_concat_scaled: "length (concat (map (\<lambda>g. scale (c g) g) xs)) = length (concat xs)"
  by (induction xs) (auto simp: scale_def)

lemma prox12norm_by_length: "prox12norm_by vnorm x gamma d = Inr y \<Longrightarrow> length y = length x"
proof -
  assume p: "prox12norm_by vnorm x gamma d = Inr y"
  then obtain xs where r: "reshape d x = Inr xs"
    by (cases "reshape d x") (auto simp: prox12norm_by_def)
  with p have "y = concat (map (\<lambda>g. scale
      (fmaximum (fsub (Fin 1) (fdiv gamma (vnorm g))) (Fin 0)) g) xs)"
    by (simp add: prox12norm_by_def Let_def map2_map_same)
  then have "length y = length (concat xs)"
    by (simp only: length_concat_scaled)
  with reshape_concat [OF r] show ?thesis by simp
qed

lemma prox12norm_length: "prox12norm x gamma d = Inr y \<Longrightarrow> length y = length x"
  using prox12norm_by_length [of linalg_norm x gamma d y]
  by (simp add: prox12norm_by_exact)

lemma linalg_norm_zeros: "linalg_norm (zeros n) = Fin 0"
proof -
  have "fsum (map (\<lambda>a. fmul a a) (replicate n (Fin 0))) = Fin 0"
    by (induction n) auto
  then show ?thesis by (simp add: linalg_norm_def zeros_def)
qed

text \<open>At a positive threshold a group of norm zero stays zero: the quotient is
  \<open>+inf\<close> and \<^verbatim>\<open>np.maximum\<close> clips the factor to 0.\<close>

lemma prox12norm_zero_group_positive:
  assumes "0 < d" and "0 < g"
  shows "prox12norm (zeros d) (Fin g) d = Inr (zeros d)"
proof -
  have len: "length (zeros d) = d"
    by (simp add: zeros_def)
  have "list_all is_fin (zeros d)"
    by (simp add: zeros_def is_fin_def list_all_iff)
  then have clipped: "scale (Fin 0) (zeros d) = zeros d"
    using scale_zero [of "zeros d"] len by simp
  have "fmaximum (fsub (Fin 1) (fdiv (Fin g) (linalg_norm (zeros d)))) (Fin 0) = Fin 0"
    using assms(2) by (simp add: linalg_norm_zeros fsub_def)
  with clipped show ?thesis
    using prox12norm_one_group [OF assms(1) len, of "Fin g"] by simp
qed

subsection \<open>The bracketing loop\<close>

lemma doubling_body_goes_on: "not_above A y sigma d L x0 gtol gmaxit g \<Longrightarrow>
  (case trial_residual A y d L x0 gtol gmaxit g of
        Inl e \<Rightarrow> Some (Inl e)
      | Inr nrm \<Rightarrow>
          if fgt nrm sigma then Some (Inr g)
          else dbl A y sigma d L x0 gtol gmaxit (fmul (Fin 2) g)) = dbl A y sigma d L x0 gtol gmaxit (fmul (Fin 2) g)"
  by (cases "trial_residual A y d L x0 gtol gmaxit g") (simp_all add: not_above_def)

lemma doubling_stuck_aux:
  assumes "doubling A y sigma d L x0 gtol gmaxit g = Some r"
  shows "\<exists>k. \<not> not_above A y sigma d L x0 gtol gmaxit ((fmul (Fin 2) ^^ k) g)"
proof (rule doubling.raw_induct
    [where P = "\<lambda>A y sigma d L x0 gtol gmaxit g r.
                  \<exists>k. \<not> not_above A y sigma d L x0 gtol gmaxit ((fmul (Fin 2) ^^ k) g)",
     OF _ assms])
  fix dbl :: "matrix \<Rightarrow> vec \<Rightarrow> npfloat \<Rightarrow> nat \<Rightarrow> npfloat \<Rightarrow> vec \<Rightarrow> npfloat \<Rightarrow> pynum \<Rightarrow> npfloat \<Rightarrow>
    (error + npfloat) option"
  fix A y sigma d L x0 gtol gmaxit g r
  assume IH: "\<And>A y sigma d L x0 gtol gmaxit g r.
      dbl A y sigma d L x0 gtol gmaxit g = Some r \<Longrightarrow>
      \<exists>k. \<not> not_above A y sigma d L x0 gtol gmaxit ((fmul (Fin 2) ^^ k) g)"
  assume body: "(case trial_residual A y d L x0 gtol gmaxit g of
        Inl e \<Rightarrow> Some (Inl e)
      | Inr nrm \<Rightarrow>
          if fgt nrm sigma then Some (Inr g)
          else dbl A y sigma d L x0 gtol gmaxit (fmul (Fin 2) g)) = Some r"
  show "\<exists>k. \<not> not_above A y sigma d L x0 gtol gmaxit ((fmul (Fin 2) ^^ k) g)"
  proof (cases "not_above A y sigma d L x0 gtol gmaxit g")
    case False
    then have "\<not> not_above A y sigma d L x0 gtol gmaxit ((fmul (Fin 2) ^^ 0) g)" by simp
    then show ?thesis by (rule exI)
  next
    case True
    from body have "dbl A y sigma d L x0 gtol gmaxit (fmul (Fin 2) g) = Some r"
      by (simp only: doubling_body_goes_on [OF True])
    from IH [OF this] obtain k where
      "\<not> not_above A y sigma d L x0 gtol gmaxit ((fmul (Fin 2) ^^ k) (fmul (Fin 2) g))" by blast
    then have "\<not> not_above A y sigma d L x0 gtol gmaxit ((fmul (Fin 2) ^^ Suc k) g)"
      by (simp add: funpow_swap1)
    then show ?thesis by (rule exI)
  qed
qed

lemma doubling_exits:
  "\<not> not_above A y sigma d L x0 gtol gmaxit ((fmul (Fin 2) ^^ k) g) \<Longrightarrow>
   \<exists>r. doubling A y sigma d L x0 gtol gmaxit g = Some r"
proof (induction k arbitrary: g)
  case 0
  then show ?case
    by (subst doubling.simps) (auto simp: not_above_def split: sum.splits)
next
  case (Suc k)
  show ?case
  proof (cases "not_above A y sigma d L x0 gtol gmaxit g")
    case False
    then show ?thesis
      by (subst doubling.simps) (auto simp: not_above_def split: sum.splits)
  next
    case True
    from Suc.prems
    have "\<not> not_above A y sigma d L x0 gtol gmaxit ((fmul (Fin 2) ^^ k) (fmul (Fin 2) g))"
      by (simp add: funpow_swap1)
    from Suc.IH [OF this] obtain r
      where "doubling A y sigma d L x0 gtol gmaxit (fmul (Fin 2) g) = Some r"
      by blast
    then show ?thesis
      by (subst doubling.simps) (simp add: doubling_body_goes_on [OF True])
  qed
qed

lemma doubling_None_iff:
  "doubling A y sigma d L x0 gtol gmaxit g = None \<longleftrightarrow>
   (\<forall>k. not_above A y sigma d L x0 gtol gmaxit ((fmul (Fin 2) ^^ k) g))"
proof
  assume none: "doubling A y sigma d L x0 gtol gmaxit g = None"
  show "\<forall>k. not_above A y sigma d L x0 gtol gmaxit ((fmul (Fin 2) ^^ k) g)"
  proof (rule ccontr)
    assume "\<not> (\<forall>k. not_above A y sigma d L x0 gtol gmaxit ((fmul (Fin 2) ^^ k) g))"
    then obtain k where "\<not> not_above A y sigma d L x0 gtol gmaxit ((fmul (Fin 2) ^^ k) g)"
      by blast
    from doubling_exits [OF this] none show False by simp
  qed
next
  assume all: "\<forall>k. not_above A y sigma d L x0 gtol gmaxit ((fmul (Fin 2) ^^ k) g)"
  show "doubling A y sigma d L x0 gtol gmaxit g = None"
  proof (cases "doubling A y sigma d L x0 gtol gmaxit g")
    case None
    then show ?thesis .
  next
    case (Some r)
    from doubling_stuck_aux [OF this] all show ?thesis by blast
  qed
qed

lemma doubled_from_one: "(fmul (Fin 2) ^^ k) (Fin 1) = Fin (2 ^ k)"
  by (induction k) auto

lemma not_above_iff:
  "not_above A y sigma d L x0 gtol gmaxit g \<longleftrightarrow>
   (\<exists>nrm. trial_residual A y d L x0 gtol gmaxit g = Inr nrm \<and> \<not> fgt nrm sigma)"
  by (cases "trial_residual A y d L x0 gtol gmaxit g") (simp_all add: not_above_def)

subsection \<open>The block driver\<close>

lemma driver_loop_result:
  "driver_loop A L d gamma tol maxit x0 ys acc = Inr result \<Longrightarrow>
   \<exists>xs. result = acc @ xs \<and> length xs = length ys \<and>
     (\<forall>i<length ys. \<exists>iters.
        apgd (\<lambda>x. grad_least_squares A x (ys ! i)) (\<lambda>x t. prox12norm x t d)
          gamma L x0 tol maxit = Inr (xs ! i, iters))"
proof (induction ys arbitrary: acc)
  case Nil
  then show ?case by simp
next
  case (Cons y ys)
  from Cons.prems obtain x iters where
    first: "apgd (\<lambda>x. grad_least_squares A x y) (\<lambda>x t. prox12norm x t d)
              gamma L x0 tol maxit = Inr (x, iters)"
    and rest: "driver_loop A L d gamma tol maxit x0 ys (acc @ [x]) = Inr result"
    by (auto split: sum.splits)
  from Cons.IH [OF rest] obtain xs where
    xs: "result = (acc @ [x]) @ xs" "length xs = length ys"
    "\<forall>i<length ys. \<exists>iters.
        apgd (\<lambda>x. grad_least_squares A x (ys ! i)) (\<lambda>x t. prox12norm x t d)
          gamma L x0 tol maxit = Inr (xs ! i, iters)"
    by blast
  have "\<forall>i<length (y # ys). \<exists>iters.
        apgd (\<lambda>x. grad_least_squares A x ((y # ys) ! i)) (\<lambda>x t. prox12norm x t d)
          gamma L x0 tol maxit = Inr ((x # xs) ! i, iters)"
  proof (intro allI impI)
    fix i assume "i < length (y # ys)"
    then show "\<exists>iters.
        apgd (\<lambda>x. grad_least_squares A x ((y # ys) ! i)) (\<lambda>x t. prox12norm x t d)
          gamma L x0 tol maxit = Inr ((x # xs) ! i, iters)"
      using first xs(3) by (cases i) auto
  qed
  with xs(1,2) show ?case
    by (intro exI [of _ "x # xs"]) simp
qed

lemma length_get_piano_keys: "length get_piano_keys = 88"
  by (simp add: get_piano_keys_def)

lemma get_A_piano:
  "f_s \<noteq> 0 \<Longrightarrow> \<exists>A. get_A get_piano_keys f_s l = Inr A \<and> ncols A = 176"
  by (simp add: get_A_def length_get_piano_keys)

subsection \<open>The examples, evaluated\<close>

text \<open>
  The examples take the 2 by 2 identity as dictionary, the signal \<open>(1, 0)\<close> and a
  group size of 2. With \<open>L = 1\<close> the step size is 1, and one pass from the zero
  iterate at weight \<open>g\<close> gives \<open>(max (1 - g) 0, 0)\<close>.
\<close>

lemma linalg_norm_pair: "linalg_norm [Fin a, Fin 0] = Fin \<bar>a\<bar>"
  by (simp add: linalg_norm_def)

lemma one_plus_sqrt5: "1 + sqrt 5 \<noteq> 0"
proof -
  have "0 \<le> sqrt 5" by simp
  then show ?thesis by linarith
qed

lemma grad_identity2:
  "grad_least_squares identity2 [Fin a, Fin b] [Fin u, Fin v] = Inr [Fin (a - u), Fin (b - v)]"
  by (simp add: grad_least_squares_def matvec_def identity2_def dot_def elementwise_def fsub_def
      transpose_m_def nrows_def upt_rec)

lemma residual_identity2:
  "residual identity2 [Fin a, Fin b] [Fin u, Fin v] = Inr (linalg_norm [Fin (a - u), Fin (b - v)])"
  by (simp add: residual_def matvec_def identity2_def dot_def elementwise_def fsub_def)

lemma prox12norm_pair:
  "0 < a \<Longrightarrow> prox12norm [Fin a, Fin 0] (Fin g) 2 = Inr [Fin (max (1 - g / a) 0 * a), Fin 0]"
  by (simp add: prox12norm_def reshape_def linalg_norm_pair fsub_def scale_def max_def)

lemma first_pass:
  "apgd_body (\<lambda>x. grad_least_squares identity2 x [Fin 1, Fin 0]) (\<lambda>x t. prox12norm x t 2)
     (Fin g) (Fin 1) [Fin 0, Fin 0] [Fin 0, Fin 0] (Fin 1) =
   Inr ([Fin (max (1 - g) 0), Fin 0], [Fin (max (1 - g) 0), Fin 0],
        Fin ((1 + sqrt 5) / 2), Fin (max (1 - g) 0))"
  using one_plus_sqrt5
  by (simp add: apgd_body_def grad_identity2 elementwise_def scale_def fsub_def prox12norm_pair
      linalg_norm_pair)

lemma one_pass_trial:
  "trial identity2 [Fin 1, Fin 0] 2 (Fin 1) [Fin 0, Fin 0] (Fin (1 / 1000000)) (PyInt 1) (Fin g) =
     (if max (1 - g) 0 \<le> 1 / 1000000 then Inr ([Fin (max (1 - g) 0), Fin 0], 0)
      else Inr ([Fin (max (1 - g) 0), Fin 0], 2))"
  by (auto simp add: trial_def apgd_def range_py_def first_pass Let_def max_def)

lemma one_pass_baseline:
  "baseline (norm_answer (Fin 1)) identity2 [Fin 1, Fin 0] 2 [Fin 0, Fin 0]
     (Fin (1 / 1000000)) (PyInt 1) = Inr (Fin 1, Fin (1 / 1000000))"
  by (simp add: baseline_def lipschitz_answer trial_residual_def one_pass_trial gamma0_def
      residual_identity2 linalg_norm_pair)

lemma trial_empty_range:
  "n \<le> 0 \<Longrightarrow> trial A y d L gnrls_x0 gnrls_tol (PyInt n) gamma = Inr (gnrls_x0, n + 1)"
  by (simp add: trial_def apgd_empty_range)

lemma no_pass_baseline:
  "baseline (norm_answer (Fin 1)) identity2 [Fin 1, Fin 0] 2 [Fin a, Fin 0]
     (Fin (1 / 1000000)) (PyInt 0) = Inr (Fin 1, Fin \<bar>a - 1\<bar>)"
  by (simp add: baseline_def lipschitz_answer trial_residual_def trial_empty_range
      residual_identity2 linalg_norm_pair)

lemma sqrt_25: "sqrt 25 = 5"
  using real_sqrt_abs [of 5] by simp

lemma one_unconverged_pass:
  "unconverged_passes (\<lambda>x. grad_least_squares identity2 x [Fin 1, Fin 0])
     (\<lambda>x t. prox12norm x t 2) (Fin (1 / 1000000)) (fdiv (Fin 1) (Fin 1)) (Fin (1 / 1000000))
     (nat 1) [Fin 0, Fin 0] [Fin 0, Fin 0] (Fin 1) =
   Some ([Fin (999999 / 1000000), Fin 0], [Fin (999999 / 1000000), Fin 0],
         Fin ((1 + sqrt 5) / 2))"
  by (simp add: first_pass)

lemma first_doubling_trial:
  "doubling identity2 [Fin 1, Fin 0] (Fin (1 / 2)) 2 (Fin 1) [Fin 0, Fin 0]
     (Fin (1 / 1000000)) (PyInt 1) (Fin 1) = Some (Inr (Fin 1))"
  by (subst doubling.simps)
    (simp add: trial_residual_def one_pass_trial residual_identity2 linalg_norm_pair fgt_def)

lemma huge_pos: "0 < huge"
  by (simp add: huge_def)

lemma square_f64_overflow: "square_f64 (Fin huge) = PInf"
proof -
  have "huge * huge = 2 ^ 1400"
    by (simp add: huge_def power_add [symmetric])
  moreover have "(2::real) ^ 1024 \<le> 2 ^ 1400"
    by (rule power_increasing) simp_all
  ultimately have "(2::real) ^ 1024 \<le> huge * huge"
    by (simp only:)
  then show ?thesis
    by (simp only: square_f64_def npfloat.case if_True)
qed

lemma square_f64_zero: "square_f64 (Fin 0) = Fin 0"
  by (simp add: square_f64_def)

lemma norm_f64_overflow: "linalg_norm_f64 [Fin huge, Fin 0] = PInf"
  by (simp add: linalg_norm_f64_def square_f64_overflow square_f64_zero)

lemma norm_f64_3_4: "linalg_norm_f64 [Fin 3, Fin 4] = Fin 5"
proof -
  have "\<not> (2::real) ^ 1024 \<le> 9" "\<not> (2::real) ^ 1024 \<le> 16"
    by simp_all
  then show ?thesis
    by (simp add: linalg_norm_f64_def square_f64_def sqrt_25)
qed

lemma stuck_example:
  "doubling identity2 [Fin 1, Fin 0] (Fin (1 / 2)) 2 (Fin 1) [Fin 1, Fin 0]
     (Fin (1 / 1000000)) (PyInt 0) (Fin 1) = None"
  by (simp add: doubling_None_iff not_above_def trial_residual_def trial_empty_range
      residual_identity2 linalg_norm_pair fgt_def)

lemma driver_example:
  "apgd_driver (norm_answer (Fin 88)) [[Fin 1], [Fin 1]] 1000 1 2 (Fin 4)
     (Fin (1 / 1000000)) (PyInt 0) = Inr [zeros 176]"
proof -
  obtain A where "get_A get_piano_keys 1000 1 = Inr A" "ncols A = 176"
    using get_A_piano [of 1000 1] by auto
  then show ?thesis
    by (simp add: apgd_driver_def lipschitz_answer apgd_empty_range)
qed

section \<open>The infeasible target\<close>

text \<open>
  C1. When the first run of APGD, at the weight \<open>gamma0 = 1e-6\<close>, returns and leaves
  the residual \<open>sigma0\<close>, and the requested \<open>sigma\<close> is strictly below \<open>sigma0\<close>,
  \<^verbatim>\<open>lscgnm\<close> returns the pair of Python's \<^verbatim>\<open>None\<close> and \<open>-1\<close>: no
  coefficient vector and no approximate answer.
\<close>

theorem lscgnm_infeasible_sentinel:
  assumes "baseline norm_ord2 A y d gnrls_x0 gnrls_tol gnrls_maxit = Inr (L, sigma0)"
    and "flt sigma sigma0"
  shows "lscgnm norm_ord2 A y sigma d tol gnrls_x0 gnrls_tol gnrls_maxit =
         Some (Inr (None, Fin (- 1)))"
  using assms by (simp add: lscgnm_def flt_not_fge)

theorem lscgnm_infeasible_sentinel_witness:
  "baseline (norm_answer (Fin 1)) identity2 [Fin 1, Fin 0] 2 [Fin 0, Fin 0]
     (Fin (1 / 1000000)) (PyInt 1) = Inr (Fin 1, Fin (1 / 1000000)) \<and>
   flt (Fin (1 / 10000000)) (Fin (1 / 1000000)) \<and>
   lscgnm (norm_answer (Fin 1)) identity2 [Fin 1, Fin 0] (Fin (1 / 10000000)) 2 (Fin (1 / 1000))
     [Fin 0, Fin 0] (Fin (1 / 1000000)) (PyInt 1) = Some (Inr (None, Fin (- 1)))"
proof -
  have below: "flt (Fin (1 / 10000000)) (Fin (1 / 1000000))" by simp
  show ?thesis
    using one_pass_baseline below lscgnm_infeasible_sentinel [OF one_pass_baseline below]
    by simp
qed

section \<open>The trivial target\<close>




section \<open>The iteration cap of APGD\<close>

text \<open>
  C3. When the loop body runs \<open>maxit\<close> times from \<open>x0\<close> (with \<open>z = x0\<close> and
  \<open>t = 1\<close>) and the convergence test holds in none of these passes, \<^verbatim>\<open>apgd\<close>
  returns the iterate of the last pass together with \<open>maxit + 1\<close>. With \<open>maxit = 0\<close>
  it returns \<open>x0\<close> and the count 1, whatever the other arguments are.
\<close>

theorem apgd_cap_sentinel:
  "(unconverged_passes gradf proxf gamma (fdiv (Fin 1) L) tol (nat n) x x (Fin 1) =
      Some (x', z', t')
      \<longrightarrow> apgd gradf proxf gamma L x tol (PyInt n) = Inr (x', n + 1)) \<and>
   apgd gradf proxf gamma L x tol (PyInt 0) = Inr (x, 1)"
proof -
  have "apgd gradf proxf gamma L x tol (PyInt n) = Inr (x', n + 1)"
    if "unconverged_passes gradf proxf gamma (fdiv (Fin 1) L) tol (nat n) x x (Fin 1) =
        Some (x', z', t')"
    using that
      apgd_loop_unconverged [of gradf proxf gamma "fdiv (Fin 1) L" tol "map int [0..<nat n]"
        x x "Fin 1" x' z' t' n]
    by (simp add: apgd_def range_py_def)
  then show ?thesis
    by (simp add: apgd_empty_range)
qed

theorem apgd_cap_sentinel_witness:
  "unconverged_passes (\<lambda>x. grad_least_squares identity2 x [Fin 1, Fin 0])
     (\<lambda>x t. prox12norm x t 2) (Fin (1 / 1000000)) (fdiv (Fin 1) (Fin 1)) (Fin (1 / 1000000))
     (nat 1) [Fin 0, Fin 0] [Fin 0, Fin 0] (Fin 1) =
   Some ([Fin (999999 / 1000000), Fin 0], [Fin (999999 / 1000000), Fin 0],
         Fin ((1 + sqrt 5) / 2)) \<and>
   apgd (\<lambda>x. grad_least_squares identity2 x [Fin 1, Fin 0]) (\<lambda>x t. prox12norm x t 2)
     (Fin (1 / 1000000)) (Fin 1) [Fin 0, Fin 0] (Fin (1 / 1000000)) (PyInt 1) =
   Inr ([Fin (999999 / 1000000), Fin 0], 2)"
  using one_unconverged_pass
    apgd_cap_sentinel [of "\<lambda>x. grad_least_squares identity2 x [Fin 1, Fin 0]"
      "\<lambda>x t. prox12norm x t 2" "Fin (1 / 1000000)" "Fin 1" "Fin (1 / 1000000)" 1
      "[Fin 0, Fin 0]" "[Fin (999999 / 1000000), Fin 0]" "[Fin (999999 / 1000000), Fin 0]"
      "Fin ((1 + sqrt 5) / 2)"]
  by simp

text \<open>
  C10. \<^verbatim>\<open>apgd\<close> builds \<^verbatim>\<open>range(maxit)\<close>. A float cap raises
  \<^verbatim>\<open>TypeError\<close> whatever the other arguments are, so before any pass of the loop;
  the declared default \<^verbatim>\<open>1e5\<close> is such a float. The loop gets an index \<open>i\<close> to
  run on only from an integer cap \<open>n\<close> with \<open>0 \<le> i < n\<close>.
\<close>

theorem apgd_maxit_must_be_int:
  "apgd gradf proxf gamma L x tol (PyFloat m) = Inl TypeError \<and>
   apgd gradf proxf gamma L x tol default_maxit = Inl TypeError \<and>
   (range_py maxit = Inr is \<and> i \<in> set is \<longrightarrow> (\<exists>n. maxit = PyInt n \<and> 0 \<le> i \<and> i < n))"
  by (cases maxit) (auto simp: apgd_float_cap default_maxit_def range_py_def)

theorem apgd_maxit_must_be_int_witness:
  "range_py (PyInt 3) = Inr [0, 1, 2] \<and> (2::int) \<in> set [0, 1, 2] \<and>
   (\<exists>n. PyInt 3 = PyInt n \<and> (0::int) \<le> 2 \<and> 2 < n)"
proof -
  have r: "range_py (PyInt 3) = Inr [0, 1, 2]"
    by (simp add: range_py_def upt_rec)
  have m: "(2::int) \<in> set [0, 1, 2]" by simp
  show ?thesis
    using r m apgd_maxit_must_be_int [of _ _ _ _ _ _ _ "PyInt 3" "[0, 1, 2]" 2]
    by simp
qed

section \<open>The proximal operator at a group of norm zero\<close>

text \<open>
  C5, evaluated where the code departs from it. The vector \<open>(0, 0)\<close> is one group of
  norm zero. At the threshold 0 the quotient \<open>gamma / norm\<close> is \<open>0 / 0\<close>, which is
  NaN; \<^verbatim>\<open>np.maximum\<close> keeps it, and the group comes back as NaN, not as zero.
\<close>

theorem prox12norm_zero_group_nan:
  "linalg_norm [Fin 0, Fin 0] = Fin 0 \<and> prox12norm [Fin 0, Fin 0] (Fin 0) 2 = Inr [NaN, NaN]"
  by (simp add: prox12norm_def reshape_def linalg_norm_def fsub_def scale_def)

text \<open>
  C8, evaluated where the code departs from it. The vector \<open>(3, 4, 0, 0)\<close> has a length
  divisible by the group size 2. At the threshold 0 the first group is returned
  unchanged and the second, of norm zero, comes back as NaN: the result is not the
  input.
\<close>

theorem prox12norm_zero_threshold_not_identity:
  "prox12norm [Fin 3, Fin 4, Fin 0, Fin 0] (Fin 0) 2 = Inr [Fin 3, Fin 4, NaN, NaN]"
  by (simp add: prox12norm_def reshape_def linalg_norm_def fsub_def scale_def sqrt_25 upt_rec)

section \<open>The unassigned result of the bisection\<close>

text \<open>
  C9. In the branch of \<^verbatim>\<open>lscgnm\<close> that searches (the baseline residual is at
  most \<open>sigma\<close>, and \<open>sigma\<close> is not at least the norm of \<open>y\<close>), let the
  bracketing loop end with the upper bound \<open>gamma_u\<close>. When \<open>gamma_u \<le> tol\<close>, the
  bisection loop, which starts from the bracket \<open>[0, gamma_u]\<close>, does not run its
  body, \<^verbatim>\<open>x_opt\<close> is never assigned, and the call raises
  \<^verbatim>\<open>UnboundLocalError\<close> (a \<^verbatim>\<open>NameError\<close>) instead of returning.
\<close>

theorem lscgnm_unbound_x_opt:
  assumes "baseline norm_ord2 A y d gnrls_x0 gnrls_tol gnrls_maxit = Inr (L, sigma0)"
    and "fge sigma sigma0"
    and "\<not> fge sigma (linalg_norm y)"
    and "doubling A y sigma d L gnrls_x0 gnrls_tol gnrls_maxit (Fin 1) = Some (Inr gamma_u)"
    and "fle gamma_u tol"
  shows "lscgnm norm_ord2 A y sigma d tol gnrls_x0 gnrls_tol gnrls_maxit =
         Some (Inl UnboundLocalError)"
proof -
  have "bisection A y sigma d tol L gnrls_x0 gnrls_tol gnrls_maxit (Fin 0) gamma_u None =
        Some (Inr (Fin 0, gamma_u, None))"
    using fle_not_fgt_width [OF assms(5)] by (subst bisection.simps) simp
  with assms(1-4) show ?thesis
    by (simp add: lscgnm_def)
qed

text \<open>The instance named in C9: the first trial, at \<open>gamma_u = 1\<close>, exceeds
  \<open>sigma = 1/2\<close>, and \<open>tol = 1\<close>.\<close>

theorem lscgnm_unbound_x_opt_witness:
  "baseline (norm_answer (Fin 1)) identity2 [Fin 1, Fin 0] 2 [Fin 0, Fin 0]
     (Fin (1 / 1000000)) (PyInt 1) = Inr (Fin 1, Fin (1 / 1000000)) \<and>
   fge (Fin (1 / 2)) (Fin (1 / 1000000)) \<and>
   \<not> fge (Fin (1 / 2)) (linalg_norm [Fin 1, Fin 0]) \<and>
   doubling identity2 [Fin 1, Fin 0] (Fin (1 / 2)) 2 (Fin 1) [Fin 0, Fin 0]
     (Fin (1 / 1000000)) (PyInt 1) (Fin 1) = Some (Inr (Fin 1)) \<and>
   fle (Fin 1) (Fin 1) \<and>
   lscgnm (norm_answer (Fin 1)) identity2 [Fin 1, Fin 0] (Fin (1 / 2)) 2 (Fin 1)
     [Fin 0, Fin 0] (Fin (1 / 1000000)) (PyInt 1) = Some (Inl UnboundLocalError)"
proof -
  have a: "fge (Fin (1 / 2)) (Fin (1 / 1000000))" by (simp add: fge_def)
  have b: "\<not> fge (Fin (1 / 2)) (linalg_norm [Fin 1, Fin 0])"
    by (simp add: fge_def linalg_norm_pair)
  have c: "fle (Fin 1) (Fin 1)" by simp
  show ?thesis
    using one_pass_baseline a b first_doubling_trial c
      lscgnm_unbound_x_opt [OF one_pass_baseline a b first_doubling_trial c]
    by simp
qed

section \<open>Thresholding of a single group\<close>

text \<open>
  C7, as stated, at an input where it fails. The vector \<open>(2 ^ 700, 0)\<close> is a single
  group of Euclidean norm \<open>r = 2 ^ 700 > 0\<close>, and the threshold is \<open>gamma = r\<close>,
  the boundary. The square of the first entry overflows, the norm that numpy computes
  is \<open>+inf\<close>, the quotient \<open>gamma / norm\<close> is 0 and the factor is 1: the code
  returns the input unchanged, not the zero vector.
\<close>

theorem prox12norm_boundary_counterexample:
  "length [Fin huge, Fin 0] = 2 \<and>
   linalg_norm [Fin huge, Fin 0] = Fin huge \<and> 0 < huge \<and>
   fge (Fin huge) (Fin huge) \<and>
   linalg_norm_f64 [Fin huge, Fin 0] = PInf \<and>
   prox12norm_by linalg_norm_f64 [Fin huge, Fin 0] (Fin huge) 2 = Inr [Fin huge, Fin 0]"
proof -
  have "prox12norm_by linalg_norm_f64 [Fin huge, Fin 0] (Fin huge) 2 = Inr [Fin huge, Fin 0]"
    using prox12norm_by_one_group [of 2 "[Fin huge, Fin 0]" linalg_norm_f64 "Fin huge"]
    by (simp add: norm_f64_overflow fsub_def scale_def)
  then show ?thesis
    using huge_pos by (simp add: linalg_norm_pair fge_def norm_f64_overflow)
qed

text \<open>
  C7, amended. Let \<open>x\<close> be a single group (its length is the group size \<open>d\<close>) of
  finite entries, and let the norm that the routine computes for it be a finite
  \<open>r > 0\<close>. When the threshold \<open>gamma\<close> is at least \<open>r\<close>, the boundary
  \<open>gamma = r\<close> included, the operator returns the zero vector; when
  \<open>0 \<le> gamma < r\<close>, it returns \<open>x\<close> scaled by \<open>1 - gamma / r\<close>. This holds
  for whatever routine computes the norm. Whenever the operator returns, on any input,
  the output has the length of the input.
\<close>

theorem prox12norm_computed_norm:
  assumes "length x = d" and "0 < d" and "list_all is_fin x"
    and "vnorm x = Fin r" and "0 < r"
  shows "(fge gamma (Fin r) \<longrightarrow> prox12norm_by vnorm x gamma d = Inr (zeros (length x))) \<and>
         (fle (Fin 0) gamma \<and> flt gamma (Fin r) \<longrightarrow>
            prox12norm_by vnorm x gamma d = Inr (scale (fsub (Fin 1) (fdiv gamma (Fin r))) x)) \<and>
         (\<forall>vnorm' x' gamma' d' y.
            prox12norm_by vnorm' x' gamma' d' = Inr y \<longrightarrow> length y = length x')"
proof -
  have one: "prox12norm_by vnorm x gamma d =
      Inr (scale (fmaximum (fsub (Fin 1) (fdiv gamma (Fin r))) (Fin 0)) x)"
    using assms(1,2,4) prox12norm_by_one_group [of d x vnorm gamma] by simp
  show ?thesis
    using one assms(3,5)
    by (auto simp: factor_zero factor_shrink scale_zero prox12norm_by_length)
qed

text \<open>The group \<open>(3, 4)\<close>, whose computed norm is 5, at the boundary threshold 5 and
  at the threshold \<open>5/2\<close>.\<close>

theorem prox12norm_computed_norm_witness:
  "length [Fin 3, Fin 4] = 2 \<and> (0::nat) < 2 \<and> list_all is_fin [Fin 3, Fin 4] \<and>
   linalg_norm_f64 [Fin 3, Fin 4] = Fin 5 \<and> (0::real) < 5 \<and>
   fge (Fin 5) (Fin 5) \<and>
   prox12norm_by linalg_norm_f64 [Fin 3, Fin 4] (Fin 5) 2 = Inr [Fin 0, Fin 0] \<and>
   fle (Fin 0) (Fin (5 / 2)) \<and> flt (Fin (5 / 2)) (Fin 5) \<and>
   prox12norm_by linalg_norm_f64 [Fin 3, Fin 4] (Fin (5 / 2)) 2 = Inr [Fin (3 / 2), Fin 2]"
proof -
  have fin: "list_all is_fin [Fin 3, Fin 4]" by (simp add: is_fin_def)
  have ge: "fge (Fin 5) (Fin 5)" by (simp add: fge_def)
  show ?thesis
    using fin norm_f64_3_4 ge
      prox12norm_computed_norm [of "[Fin 3, Fin 4]" 2 linalg_norm_f64 5 "Fin 5"]
      prox12norm_computed_norm [of "[Fin 3, Fin 4]" 2 linalg_norm_f64 5 "Fin (5 / 2)"]
    by (simp add: zeros_def scale_def fsub_def numeral_2_eq_2)
qed

section \<open>The bracketing loop has no bound\<close>

text \<open>
  C6, as stated, at an input where it fails. The dictionary is the identity, the signal
  and the initial iterate are both \<open>(1, 0)\<close>, the target is \<open>1/2\<close> and the
  iteration cap of the inner solver is 0. Every trial returns the initial iterate, whose
  residual 0 never exceeds the target, while the target is below the norm 1 of the
  signal: the loop doubles \<open>gamma_u\<close> for ever. The call neither returns nor raises.
\<close>

theorem lscgnm_doubling_counterexample:
  "lscgnm (norm_answer (Fin 1)) identity2 [Fin 1, Fin 0] (Fin (1 / 2)) 2 (Fin (1 / 1000))
     [Fin 1, Fin 0] (Fin (1 / 1000000)) (PyInt 0) = None"
  by (simp add: lscgnm_def no_pass_baseline linalg_norm_pair fge_def stuck_example)

text \<open>
  C6, amended. The bracketing loop has no iteration cap and no error of its own: started
  at \<open>gamma_u = 1\<close>, it fails to return exactly when the trial at every weight
  \<open>2 ^ k\<close> returns with a residual that is not greater than \<open>sigma\<close>.
\<close>

theorem doubling_has_no_cap:
  "doubling A y sigma d L x0 gtol gmaxit (Fin 1) = None \<longleftrightarrow>
   (\<forall>k. \<exists>nrm. trial_residual A y d L x0 gtol gmaxit (Fin (2 ^ k)) = Inr nrm \<and> \<not> fgt nrm sigma)"
  by (simp add: doubling_None_iff doubled_from_one not_above_iff)

section \<open>The blocks the driver solves\<close>

text \<open>
  C4, as stated, at an input where it fails. The sequence holds one block, of length 1;
  the dictionary for that block length is the single row \<open>(1, 0, 1, 0, \<dots>)\<close> of 176
  entries, and the spectral norm of its Gram matrix is 88. The loop runs over
  \<^verbatim>\<open>data[:-1]\<close>, which is empty: the driver returns no coefficient vector for the
  block.
\<close>

theorem apgd_driver_blocks_counterexample:
  "length [[Fin 1]] = 1 \<and>
   apgd_driver (norm_answer (Fin 88)) [[Fin 1]] 1000 1 2 (Fin 4) (Fin (1 / 1000000))
     (PyInt 100000) = Inr []"
proof -
  obtain A where "get_A get_piano_keys 1000 1 = Inr A"
    using get_A_piano [of 1000 1] by auto
  then show ?thesis
    by (simp add: apgd_driver_def lipschitz_answer)
qed

text \<open>
  C4, amended. The driver runs over all blocks but the last. When it returns, it returns
  one coefficient vector for each of these blocks, in order (so one fewer than there are
  blocks, and none for an empty sequence), and the vector at position \<open>i\<close> is what
  APGD returns for block \<open>i\<close>, started from the zero vector, with the dictionary and
  the Lipschitz constant computed once.
\<close>

theorem apgd_driver_blocks:
  assumes "apgd_driver norm_ord2 data f_s l d gamma tol maxit = Inr result"
  shows "length result = length data - 1 \<and>
         (\<exists>A L. get_A get_piano_keys f_s l = Inr A \<and> lipschitz norm_ord2 A = Inr L \<and>
            (\<forall>i<length result. \<exists>iters.
               apgd (\<lambda>x. grad_least_squares A x (data ! i)) (\<lambda>x t. prox12norm x t d)
                 gamma L (zeros (ncols A)) tol maxit = Inr (result ! i, iters)))"
proof -
  from assms obtain A L where
    A: "get_A get_piano_keys f_s l = Inr A" and L: "lipschitz norm_ord2 A = Inr L"
    and loop: "driver_loop A L d gamma tol maxit (zeros (ncols A)) (butlast data) [] = Inr result"
    by (cases "get_A get_piano_keys f_s l";
        cases "lipschitz norm_ord2 (projr (get_A get_piano_keys f_s l))")
      (auto simp: apgd_driver_def)
  from driver_loop_result [OF loop] have
    len: "length result = length (butlast data)"
    and each: "\<forall>i<length (butlast data). \<exists>iters.
        apgd (\<lambda>x. grad_least_squares A x (butlast data ! i)) (\<lambda>x t. prox12norm x t d)
          gamma L (zeros (ncols A)) tol maxit = Inr (result ! i, iters)"
    by auto
  have "\<forall>i<length result. \<exists>iters.
               apgd (\<lambda>x. grad_least_squares A x (data ! i)) (\<lambda>x t. prox12norm x t d)
                 gamma L (zeros (ncols A)) tol maxit = Inr (result ! i, iters)"
    using each len by (simp add: nth_butlast)
  with A L len show ?thesis by auto
qed

theorem apgd_driver_blocks_witness:
  "apgd_driver (norm_answer (Fin 88)) [[Fin 1], [Fin 1]] 1000 1 2 (Fin 4)
     (Fin (1 / 1000000)) (PyInt 0) = Inr [zeros 176] \<and>
   length [zeros 176] = length [[Fin 1], [Fin 1 :: npfloat]] - 1 \<and>
   (\<exists>A L iters. get_A get_piano_keys 1000 1 = Inr A \<and>
      lipschitz (norm_answer (Fin 88)) A = Inr L \<and>
      apgd (\<lambda>x. grad_least_squares A x [Fin 1]) (\<lambda>x t. prox12norm x t 2)
        (Fin 4) L (zeros (ncols A)) (Fin (1 / 1000000)) (PyInt 0) = Inr (zeros 176, iters))"
  using driver_example apgd_driver_blocks [OF driver_example]
  by simp

end
